theory Spec2Isabelle
  imports Complex_Main
begin

section \<open>Floating-point values of the numerical code\<close>

text \<open>
  The scripts compute with NumPy \<^verbatim>\<open>float64\<close> arrays. A value is modelled as a finite
  real, one of the two infinities, or NaN. The special values follow the IEEE rules that
  NumPy applies (NaN propagates through every operation and every comparison with NaN is
  false, \<^verbatim>\<open>x / 0\<close> is an infinity or NaN and raises nothing). On finite values the
  arithmetic is exact: rounding, overflow of a finite result to an infinity and the sign
  of zero are not represented.
\<close>

datatype fl = Fin real | PInf | NInf | NaN

fun is_nan :: "fl \<Rightarrow> bool" where
  "is_nan NaN = True"
| "is_nan _ = False"


fun fl_neg :: "fl \<Rightarrow> fl" where
  "fl_neg (Fin a) = Fin (- a)"
| "fl_neg PInf = NInf"
| "fl_neg NInf = PInf"
| "fl_neg NaN = NaN"

fun fl_add :: "fl \<Rightarrow> fl \<Rightarrow> fl" where
  "fl_add (Fin a) (Fin b) = Fin (a + b)"
| "fl_add (Fin a) PInf = PInf"
| "fl_add (Fin a) NInf = NInf"
| "fl_add PInf (Fin b) = PInf"
| "fl_add PInf PInf = PInf"
| "fl_add NInf (Fin b) = NInf"
| "fl_add NInf NInf = NInf"
| "fl_add _ _ = NaN"

definition fl_sub :: "fl \<Rightarrow> fl \<Rightarrow> fl" where
  "fl_sub x y = fl_add x (fl_neg y)"

text \<open>The sign of a non-NaN value: \<open>1\<close>, \<open>0\<close> or \<open>-1\<close>.\<close>

fun fl_sgn :: "fl \<Rightarrow> real" where
  "fl_sgn (Fin a) = sgn a"
| "fl_sgn PInf = 1"
| "fl_sgn NInf = - 1"
| "fl_sgn NaN = 0"

definition signed_inf :: "real \<Rightarrow> fl" where
  "signed_inf s = (if s = 0 then NaN else if 0 < s then PInf else NInf)"

fun fl_mul :: "fl \<Rightarrow> fl \<Rightarrow> fl" where
  "fl_mul NaN _ = NaN"
| "fl_mul _ NaN = NaN"
| "fl_mul (Fin a) (Fin b) = Fin (a * b)"
| "fl_mul x y = signed_inf (fl_sgn x * fl_sgn y)"

text \<open>
  Division: a finite non-zero value over zero is an infinity, \<open>0 / 0\<close> and
  \<open>inf / inf\<close> are NaN, a finite value over an infinity is zero.
\<close>

fun fl_div :: "fl \<Rightarrow> fl \<Rightarrow> fl" where
  "fl_div NaN _ = NaN"
| "fl_div _ NaN = NaN"
| "fl_div (Fin a) (Fin b) = (if b = 0 then signed_inf a else Fin (a / b))"
| "fl_div (Fin a) _ = Fin 0"
| "fl_div PInf (Fin b) = (if b < 0 then NInf else PInf)"
| "fl_div NInf (Fin b) = (if b < 0 then PInf else NInf)"
| "fl_div _ _ = NaN"

text \<open>\<^verbatim>\<open>np.exp\<close>.\<close>

fun fl_exp :: "fl \<Rightarrow> fl" where
  "fl_exp (Fin a) = Fin (exp a)"
| "fl_exp PInf = PInf"
| "fl_exp NInf = Fin 0"
| "fl_exp NaN = NaN"

text \<open>
  \<^verbatim>\<open>np.clip(x, lo, hi)\<close> is \<^verbatim>\<open>minimum(maximum(x, lo), hi)\<close>: NaN stays NaN, an infinity
  becomes the bound on its side.
\<close>

fun fl_clip :: "fl \<Rightarrow> real \<Rightarrow> real \<Rightarrow> fl" where
  "fl_clip (Fin a) lo hi = Fin (min (max a lo) hi)"
| "fl_clip PInf lo hi = Fin (min (max hi lo) hi)"
| "fl_clip NInf lo hi = Fin (min lo hi)"
| "fl_clip NaN lo hi = NaN"

text \<open>Comparisons: false as soon as one side is NaN.\<close>

fun fl_less :: "fl \<Rightarrow> fl \<Rightarrow> bool" where
  "fl_less NaN _ = False"
| "fl_less _ NaN = False"
| "fl_less (Fin a) (Fin b) = (a < b)"
| "fl_less (Fin a) PInf = True"
| "fl_less NInf (Fin b) = True"
| "fl_less NInf PInf = True"
| "fl_less _ _ = False"

definition fl_greater :: "fl \<Rightarrow> fl \<Rightarrow> bool" where
  "fl_greater x y = fl_less y x"


section \<open>Trade costs (\<^verbatim>\<open>spatial_processing.calculate_trade_costs\<close>)\<close>

text \<open>
  \<^verbatim>\<open>
  distance_matrix_array = distance_matrix.to_numpy().astype(float)
  distance_matrix_array *= phi
  T = np.exp(np.clip(distance_matrix_array, -700, 700))
  return T
  \<close>
  A two-dimensional array is the list of its rows.
\<close>

definition calculate_trade_costs :: "fl list list \<Rightarrow> fl \<Rightarrow> fl list list" where
  "calculate_trade_costs distance_matrix phi =
     (let distance_matrix_array = map (map (\<lambda>d. fl_mul d phi)) distance_matrix
      in map (map (\<lambda>x. fl_exp (fl_clip x (- 700) 700))) distance_matrix_array)"

text \<open>A matrix is square with \<open>n\<close> rows, and all its entries are finite and not negative.\<close>

definition square :: "nat \<Rightarrow> 'a list list \<Rightarrow> bool" where
  "square n M = (length M = n \<and> list_all (\<lambda>row. length row = n) M)"

definition nonneg_finite :: "fl \<Rightarrow> bool" where
  "nonneg_finite x = (case x of Fin a \<Rightarrow> 0 \<le> a | _ \<Rightarrow> False)"

definition positive_finite :: "fl \<Rightarrow> bool" where
  "positive_finite x = (case x of Fin a \<Rightarrow> 0 < a | _ \<Rightarrow> False)"

section \<open>Array operations of NumPy\<close>

text \<open>
  \<^verbatim>\<open>x ** k\<close> for an integer exponent \<open>k\<close> (C \<^verbatim>\<open>pow\<close>): a zero base with a
  negative exponent gives an infinity, an infinite base gives zero or an infinity.
\<close>

definition fl_powi :: "fl \<Rightarrow> int \<Rightarrow> fl" where
  "fl_powi x k =
     (if k = 0 then Fin 1
      else case x of
        NaN \<Rightarrow> NaN
      | Fin a \<Rightarrow> (if a = 0 \<and> k < 0 then PInf else Fin (a powi k))
      | PInf \<Rightarrow> (if k < 0 then Fin 0 else PInf)
      | NInf \<Rightarrow> (if k < 0 then Fin 0 else if odd k then NInf else PInf))"

text \<open>
  \<^verbatim>\<open>x ** y\<close> for an exponent \<open>y\<close> that is not an integer (here \<open>1/8\<close> and \<open>-1/8\<close>):
  a negative finite base gives NaN.
\<close>

definition fl_powr :: "fl \<Rightarrow> real \<Rightarrow> fl" where
  "fl_powr x y =
     (case x of
        NaN \<Rightarrow> NaN
      | Fin a \<Rightarrow> (if a < 0 then NaN
                  else if a = 0 then (if y < 0 then PInf else Fin 0)
                  else Fin (a powr y))
      | PInf \<Rightarrow> (if y < 0 then Fin 0 else PInf)
      | NInf \<Rightarrow> (if y < 0 then Fin 0 else PInf))"

fun fl_sqrt :: "fl \<Rightarrow> fl" where
  "fl_sqrt (Fin a) = (if a < 0 then NaN else Fin (sqrt a))"
| "fl_sqrt PInf = PInf"
| "fl_sqrt NInf = NaN"
| "fl_sqrt NaN = NaN"

text \<open>\<^verbatim>\<open>np.sum\<close>, \<^verbatim>\<open>np.mean\<close> (NaN on an empty array), \<^verbatim>\<open>np.linalg.norm\<close> of a vector.\<close>

primrec fl_sum :: "fl list \<Rightarrow> fl" where
  "fl_sum [] = Fin 0"
| "fl_sum (x # xs) = fl_add x (fl_sum xs)"

definition fl_mean :: "fl list \<Rightarrow> fl" where
  "fl_mean xs = fl_div (fl_sum xs) (Fin (real (length xs)))"

definition norm2 :: "fl list \<Rightarrow> fl" where
  "norm2 v = fl_sqrt (fl_sum (map (\<lambda>x. fl_mul x x) v))"

definition ones :: "nat \<Rightarrow> fl list" where
  "ones n = replicate n (Fin 1)"

text \<open>\<^verbatim>\<open>x / np.mean(x)\<close>: division of every entry by a scalar.\<close>

definition div_by_mean :: "fl list \<Rightarrow> fl list" where
  "div_by_mean xs = map (\<lambda>x. fl_div x (fl_mean xs)) xs"

text \<open>
  Elementwise operations broadcast: two axes fit when their lengths agree or one of them is
  1, otherwise NumPy raises \<^verbatim>\<open>ValueError\<close>. An array without rows is \<open>[]\<close> (its number
  of columns is not represented).
\<close>

datatype error = ValueError

definition broadcast1 :: "('a \<Rightarrow> 'b \<Rightarrow> 'c) \<Rightarrow> 'a list \<Rightarrow> 'b list \<Rightarrow> error + 'c list" where
  "broadcast1 f xs ys =
     (if length xs = length ys then Inr (map2 f xs ys)
      else if length xs = 1 then Inr (map (f (hd xs)) ys)
      else if length ys = 1 then Inr (map (\<lambda>x. f x (hd ys)) xs)
      else Inl ValueError)"

fun sequence :: "(error + 'a) list \<Rightarrow> error + 'a list" where
  "sequence [] = Inr []"
| "sequence (Inl e # rs) = Inl e"
| "sequence (Inr x # rs) = (case sequence rs of Inl e \<Rightarrow> Inl e | Inr xs \<Rightarrow> Inr (x # xs))"

definition broadcast2 :: "(fl \<Rightarrow> fl \<Rightarrow> fl) \<Rightarrow> fl list list \<Rightarrow> fl list list \<Rightarrow> error + fl list list" where
  "broadcast2 f X Y =
     (case broadcast1 (broadcast1 f) X Y of Inl e \<Rightarrow> Inl e | Inr rows \<Rightarrow> sequence rows)"

text \<open>\<^verbatim>\<open>v[:, None]\<close>: a vector as a matrix with one column.\<close>

definition column :: "fl list \<Rightarrow> fl list list" where
  "column v = map (\<lambda>x. [x]) v"

definition and_then :: "error + 'a \<Rightarrow> ('a \<Rightarrow> error + 'b) \<Rightarrow> error + 'b" where
  "and_then r k = (case r of Inl e \<Rightarrow> Inl e | Inr x \<Rightarrow> k x)"

section \<open>Model inversion (\<^verbatim>\<open>model_inversion.invert_model\<close>)\<close>

subsection \<open>Repair of missing values and normalisation\<close>

text \<open>
  \<^verbatim>\<open>
  missing_L = np.sum(np.isnan(L))
  missing_w = np.sum(np.isnan(w))
  if missing_L > 0 or missing_w > 0:
      print(f"Warning: Found missing values in year {year}") ...
      L = np.nan_to_num(L, nan=np.nanmean(L))
      w = np.nan_to_num(w, nan=np.nanmean(w))
  L = np.array(L) / np.mean(L)
  w = np.array(w) / np.mean(w)
  \<close>
  \<^verbatim>\<open>np.nanmean\<close> is the mean of the entries that are not NaN. \<^verbatim>\<open>np.nan_to_num\<close> puts
  its \<^verbatim>\<open>nan\<close> argument in place of every NaN and the largest finite double in place of
  an infinity. The third component of \<open>repair\<close> tells whether the warning is printed.
\<close>

definition DBL_MAX :: real where
  "DBL_MAX = (2 - 1 / 2 ^ 52) * 2 ^ 1023"

definition nanmean :: "fl list \<Rightarrow> fl" where
  "nanmean xs = fl_mean (filter (\<lambda>x. \<not> is_nan x) xs)"

definition nan_to_num :: "fl list \<Rightarrow> fl \<Rightarrow> fl list" where
  "nan_to_num xs nan =
     map (\<lambda>x. case x of NaN \<Rightarrow> nan | PInf \<Rightarrow> Fin DBL_MAX | NInf \<Rightarrow> Fin (- DBL_MAX) | Fin a \<Rightarrow> Fin a) xs"

definition repair :: "fl list \<Rightarrow> fl list \<Rightarrow> fl list \<times> fl list \<times> bool" where
  "repair L w =
     (let missing_L = length (filter is_nan L);
          missing_w = length (filter is_nan w)
      in if missing_L > 0 \<or> missing_w > 0
         then (nan_to_num L (nanmean L), nan_to_num w (nanmean w), True)
         else (L, w, False))"

text \<open>Lines 52 to 65: the repair, then both vectors divided by their means.\<close>

definition preprocess :: "fl list \<Rightarrow> fl list \<Rightarrow> fl list \<times> fl list \<times> bool" where
  "preprocess L0 w0 =
     (let (L1, w1, warning) = repair L0 w0
      in (div_by_mean L1, div_by_mean w1, warning))"



subsection \<open>Parameters\<close>

text \<open>
  \<^verbatim>\<open>
  sigma = 9; tol = 1e-6; max_iter = 1000; min_alpha = 0.01; initial_alpha = 0.1
  \<close>
  \<open>np_clip\<close> is \<^verbatim>\<open>np.clip(x, 1e-10, 1e10)\<close>.
\<close>

definition sigma :: int where "sigma = 9"
definition tol :: real where "tol = 1 / 10 ^ 6"
definition max_iter :: nat where "max_iter = 1000"
definition min_alpha :: real where "min_alpha = 1 / 100"
definition initial_alpha :: real where "initial_alpha = 1 / 10"

definition np_clip :: "fl \<Rightarrow> fl" where
  "np_clip x = fl_clip x (1 / 10 ^ 10) (10 ^ 10)"

definition alpha_update :: "nat \<Rightarrow> real" where
  "alpha_update iter_count = max min_alpha (initial_alpha / sqrt (1 + real iter_count))"

subsection \<open>One iteration\<close>

text \<open>
  \<^verbatim>\<open>
  term1 = np.clip(T ** (1 - sigma), 1e-10, 1e10)
  term2 = np.clip((w * np.ones(N)) ** (sigma - 1), 1e-10, 1e10)
  term3 = np.clip(np.ones(N)[:, None] * ((A / w) ** (sigma - 1)), 1e-10, 1e10)
  combined_terms = np.clip(term1 * term2[:, None] * term3, 1e-10, 1e10)
  u_new = np.clip((np.mean(combined_terms, axis=1)) ** (1 / (1 - sigma)), 1e-10, 1e10)
  u_new = u_new / np.mean(u_new)
  \<close>
\<close>

definition update_u :: "fl list list \<Rightarrow> fl list \<Rightarrow> fl list \<Rightarrow> nat \<Rightarrow> error + fl list" where
  "update_u T w A N =
     (let term1 = map (map (\<lambda>t. np_clip (fl_powi t (1 - sigma)))) T in
      and_then (broadcast1 fl_mul w (ones N)) (\<lambda>w1.
      let term2 = map (\<lambda>x. np_clip (fl_powi x (sigma - 1))) w1 in
      and_then (broadcast1 fl_div A w) (\<lambda>q.
      and_then (broadcast2 fl_mul (column (ones N)) [map (\<lambda>x. fl_powi x (sigma - 1)) q]) (\<lambda>m3.
      let term3 = map (map np_clip) m3 in
      and_then (broadcast2 fl_mul term1 (column term2)) (\<lambda>p12.
      and_then (broadcast2 fl_mul p12 term3) (\<lambda>p123.
      let combined_terms = map (map np_clip) p123;
          u_new = map (\<lambda>row. np_clip (fl_powr (fl_mean row) (1 / real_of_int (1 - sigma))))
                      combined_terms
      in Inr (div_by_mean u_new)))))))"

text \<open>
  \<^verbatim>\<open>
  A_new = np.clip((L * w ** (2 * sigma - 1) * u ** (sigma - 1)) ** (1 / (sigma - 1)), 1e-10, 1e10)
  A_new = A_new / np.mean(A_new)
  \<close>
\<close>

definition update_A :: "fl list \<Rightarrow> fl list \<Rightarrow> fl list \<Rightarrow> error + fl list" where
  "update_A L w u =
     and_then (broadcast1 fl_mul L (map (\<lambda>x. fl_powi x (2 * sigma - 1)) w)) (\<lambda>lw.
     and_then (broadcast1 fl_mul lw (map (\<lambda>x. fl_powi x (sigma - 1)) u)) (\<lambda>b.
     let A_new = map (\<lambda>x. np_clip (fl_powr x (1 / real_of_int (sigma - 1)))) b
     in Inr (div_by_mean A_new)))"

text \<open>
  The variables of the loop. \<open>st_A\<close>, \<open>st_u\<close> and \<open>st_diff\<close> are the variables
  \<^verbatim>\<open>A\<close>, \<^verbatim>\<open>u\<close> and \<^verbatim>\<open>diff\<close>; \<^verbatim>\<open>None\<close> is \<open>None\<close>.
\<close>

record state =
  st_A :: "fl list"
  st_u :: "fl list"
  best_diff :: fl
  best_A :: "fl list option"
  best_u :: "fl list option"
  st_diff :: fl
  iter_count :: nat
  no_improvement_count :: nat

text \<open>\<^verbatim>\<open>alpha_update * x_new + (1 - alpha_update) * x\<close>\<close>

definition blend :: "real \<Rightarrow> fl list \<Rightarrow> fl list \<Rightarrow> error + fl list" where
  "blend alpha x_new x =
     broadcast1 fl_add (map (fl_mul (Fin alpha)) x_new) (map (fl_mul (Fin (1 - alpha))) x)"

text \<open>
  The body of \<^verbatim>\<open>try\<close>, lines 95 to 126 without the \<^verbatim>\<open>break\<close>. An exception is
  \<open>Inl\<close>; otherwise the result is \<^verbatim>\<open>A_new\<close>, \<^verbatim>\<open>u_new\<close> and the variables after
  the body.
  \<^verbatim>\<open>
  diff = np.linalg.norm(A - A_new) + np.linalg.norm(u - u_new)
  if diff < best_diff:
      best_diff = diff
      best_A = A_new.copy()
      best_u = u_new.copy()
      no_improvement_count = 0
  else:
      no_improvement_count += 1
  A = alpha_update * A_new + (1 - alpha_update) * A
  u = alpha_update * u_new + (1 - alpha_update) * u
  \<close>
\<close>

definition try_block ::
  "fl list list \<Rightarrow> fl list \<Rightarrow> fl list \<Rightarrow> nat \<Rightarrow> state \<Rightarrow> error + (fl list \<times> fl list \<times> state)" where
  "try_block T L w N st =
     and_then (update_u T w (st_A st) N) (\<lambda>u_new.
     and_then (update_A L w (st_u st)) (\<lambda>A_new.
     and_then (broadcast1 fl_sub (st_A st) A_new) (\<lambda>dA.
     and_then (broadcast1 fl_sub (st_u st) u_new) (\<lambda>du.
     let diff = fl_add (norm2 dA) (norm2 du);
         st1 = (if fl_less diff (best_diff st)
                then st\<lparr>st_diff := diff, best_diff := diff, best_A := Some A_new,
                        best_u := Some u_new, no_improvement_count := 0\<rparr>
                else st\<lparr>st_diff := diff,
                        no_improvement_count := no_improvement_count st + 1\<rparr>)
     in
     and_then (blend (alpha_update (iter_count st)) A_new (st_A st)) (\<lambda>A'.
     and_then (blend (alpha_update (iter_count st)) u_new (st_u st)) (\<lambda>u'.
     Inr (A_new, u_new, st1\<lparr>st_A := A', st_u := u'\<rparr>)))))))"

subsection \<open>The loop of one year\<close>

text \<open>
  \<^verbatim>\<open>
  while diff > tol and iter_count < max_iter:
      alpha_update = max(min_alpha, initial_alpha / np.sqrt(1 + iter_count))
      try:
          ...
          if no_improvement_count > 50:
              break
      except Exception as e:
          break
      iter_count += 1
  \<close>
  An exception leaves the variables of the loop as they were at the head of the iteration:
  whatever raises does so before \<^verbatim>\<open>diff\<close> is assigned (see \<open>blend_after_sub\<close> below).
\<close>

function loop :: "fl list list \<Rightarrow> fl list \<Rightarrow> fl list \<Rightarrow> nat \<Rightarrow> state \<Rightarrow> state" where
  "loop T L w N st =
     (if fl_greater (st_diff st) (Fin tol) \<and> iter_count st < max_iter then
        (case try_block T L w N st of
           Inl e \<Rightarrow> st
         | Inr (A_new, u_new, st') \<Rightarrow>
             if no_improvement_count st' > 50 then st'
             else loop T L w N (st'\<lparr>iter_count := iter_count st + 1\<rparr>))
      else st)"
  by pat_completeness auto
termination
  by (relation "measure (\<lambda>(T, L, w, N, st). max_iter - iter_count st)") auto

declare loop.simps [simp del]




subsection \<open>One year, and all years\<close>

text \<open>
  \<^verbatim>\<open>
  A = np.ones(N); u = np.ones(N)
  best_diff = float('inf'); best_A = None; best_u = None
  diff = 1; iter_count = 0; no_improvement_count = 0
  \<close>
\<close>

definition initial_state :: "nat \<Rightarrow> state" where
  "initial_state N =
     \<lparr>st_A = ones N, st_u = ones N, best_diff = PInf, best_A = None, best_u = None,
      st_diff = Fin 1, iter_count = 0, no_improvement_count = 0\<rparr>"

text \<open>
  What one year leaves behind: the columns \<^verbatim>\<open>A_<year>\<close> and \<^verbatim>\<open>u_<year>\<close>, the entry of
  \<^verbatim>\<open>convergence_stats\<close>, and whether the warning about missing values was printed.
\<close>

record year_result =
  res_A :: "fl list"
  res_u :: "fl list"
  iterations :: nat
  final_diff :: fl
  warned :: bool

text \<open>
  \<^verbatim>\<open>
  if best_A is not None and best_u is not None:
      A = best_A; u = best_u; diff = best_diff
  convergence_stats[year]['iterations'] = iter_count
  convergence_stats[year]['final_diff'] = diff
  \<close>
\<close>

definition use_best :: "state \<Rightarrow> fl list \<times> fl list \<times> fl" where
  "use_best st =
     (case (best_A st, best_u st) of
        (Some a, Some b) \<Rightarrow> (a, b, best_diff st)
      | _ \<Rightarrow> (st_A st, st_u st, st_diff st))"

text \<open>
  The body of \<^verbatim>\<open>for year in years\<close>, for the columns \<open>L\<close> and \<open>w\<close> of a table of
  \<open>N\<close> rows. Outside \<^verbatim>\<open>try\<close> an exception ends the whole run: \<^verbatim>\<open>np.min\<close> of an empty
  array raises \<^verbatim>\<open>ValueError\<close> (in the statistics printed before and after the loop), and
  so does storing a column whose length is not \<open>N\<close>.
\<close>

definition invert_year :: "fl list list \<Rightarrow> nat \<Rightarrow> fl list \<Rightarrow> fl list \<Rightarrow> error + year_result" where
  "invert_year T N L0 w0 =
     (let (L, w, warning) = preprocess L0 w0
      in if L = [] \<or> w = [] then Inl ValueError
         else
           let st = loop T L w N (initial_state N);
               (A, u, diff) = use_best st
           in if A = [] \<or> u = [] then Inl ValueError
              else if length A \<noteq> N \<or> length u \<noteq> N then Inl ValueError
              else Inr \<lparr>res_A = A, res_u = u, iterations = iter_count st,
                        final_diff = diff, warned = warning\<rparr>)"

text \<open>
  The years are given with their columns \<^verbatim>\<open>Population_<year>\<close> and \<^verbatim>\<open>Wage_<year>\<close>.
\<close>

fun invert_model ::
  "fl list list \<Rightarrow> nat \<Rightarrow> (nat \<times> fl list \<times> fl list) list \<Rightarrow> error + (nat \<times> year_result) list" where
  "invert_model T N [] = Inr []"
| "invert_model T N ((year, L, w) # years) =
     (case invert_year T N L w of
        Inl e \<Rightarrow> Inl e
      | Inr r \<Rightarrow> (case invert_model T N years of
                    Inl e \<Rightarrow> Inl e
                  | Inr rs \<Rightarrow> Inr ((year, r) # rs)))"

subsection \<open>Predicates of the statements\<close>




text \<open>A value inside the clip range.\<close>

definition clipped :: "fl \<Rightarrow> bool" where
  "clipped x = (case x of Fin a \<Rightarrow> 1 / 10 ^ 10 \<le> a \<and> a \<le> 10 ^ 10 | _ \<Rightarrow> False)"




subsection \<open>The update as the specification words it\<close>

text \<open>
  \<open>combined[i][j] = T[i][j]^(1-sigma) * w[i]^(sigma-1) * (A[j]/w[j])^(sigma-1)\<close>, each
  factor clipped and the product clipped again;
  \<open>u_new[i] = (mean_j combined[i][j])^(1/(1-sigma))\<close>, clipped, then divided by the mean;
  \<open>A_new[i] = (L[i] * w[i]^(2*sigma-1) * u[i]^(sigma-1))^(1/(sigma-1))\<close>, clipped, then
  divided by the mean.
\<close>

definition spec_combined :: "fl list list \<Rightarrow> fl list \<Rightarrow> fl list \<Rightarrow> nat \<Rightarrow> nat \<Rightarrow> fl" where
  "spec_combined T w A i j =
     np_clip (fl_mul (fl_mul (np_clip (fl_powi (T ! i ! j) (1 - sigma)))
                             (np_clip (fl_powi (w ! i) (sigma - 1))))
                     (np_clip (fl_powi (fl_div (A ! j) (w ! j)) (sigma - 1))))"

definition spec_u_clipped :: "fl list list \<Rightarrow> fl list \<Rightarrow> fl list \<Rightarrow> nat \<Rightarrow> nat \<Rightarrow> fl" where
  "spec_u_clipped T w A N i =
     np_clip (fl_powr (fl_mean (map (spec_combined T w A i) [0..<N]))
                      (1 / real_of_int (1 - sigma)))"

definition spec_u_new :: "fl list list \<Rightarrow> fl list \<Rightarrow> fl list \<Rightarrow> nat \<Rightarrow> fl list" where
  "spec_u_new T w A N = div_by_mean (map (spec_u_clipped T w A N) [0..<N])"

definition spec_A_clipped :: "fl list \<Rightarrow> fl list \<Rightarrow> fl list \<Rightarrow> nat \<Rightarrow> fl" where
  "spec_A_clipped L w u i =
     np_clip (fl_powr (fl_mul (fl_mul (L ! i) (fl_powi (w ! i) (2 * sigma - 1)))
                              (fl_powi (u ! i) (sigma - 1)))
                      (1 / real_of_int (sigma - 1)))"

definition spec_A_new :: "fl list \<Rightarrow> fl list \<Rightarrow> fl list \<Rightarrow> nat \<Rightarrow> fl list" where
  "spec_A_new L w u N = div_by_mean (map (spec_A_clipped L w u) [0..<N])"

section \<open>Properties of the trade costs\<close>

lemma trade_cost_entry:
  assumes "i < length D" "j < length (D ! i)"
  shows "calculate_trade_costs D phi ! i ! j = fl_exp (fl_clip (fl_mul (D ! i ! j) phi) (- 700) 700)"
  using assms by (simp add: calculate_trade_costs_def)

text \<open>
  Claim C4. For a square distance matrix with finite non-negative entries and zero
  diagonal and a real scalar \<open>phi\<close>, every entry of the result is
  \<open>exp (clip (phi * D[i][j], -700, 700))\<close>, the diagonal entries are 1 and every entry
  is a positive finite number.
\<close>

theorem C4_trade_costs_elementwise:
  assumes "square n D"
    and "\<forall>i<n. \<forall>j<n. nonneg_finite (D ! i ! j)"
    and "\<forall>i<n. D ! i ! i = Fin 0"
    and "i < n" "j < n"
  shows "calculate_trade_costs D (Fin phi) ! i ! j
           = fl_exp (fl_clip (fl_mul (Fin phi) (D ! i ! j)) (- 700) 700)
       \<and> calculate_trade_costs D (Fin phi) ! i ! i = Fin 1
       \<and> positive_finite (calculate_trade_costs D (Fin phi) ! i ! j)"
proof -
  have len: "i < length D" "j < length (D ! i)" "i < length (D ! i)"
    using assms(1,4,5) by (auto simp: square_def list_all_length)
  have "nonneg_finite (D ! i ! j)"
    using assms(2,4,5) by blast
  then obtain d where d: "D ! i ! j = Fin d"
    by (cases "D ! i ! j") (simp_all add: nonneg_finite_def)
  have e: "calculate_trade_costs D (Fin phi) ! i ! j = Fin (exp (min (max (d * phi) (- 700)) 700))"
    using trade_cost_entry [OF len(1,2)] d by simp
  have "D ! i ! i = Fin 0"
    using assms(3,4) by blast
  then have diag: "calculate_trade_costs D (Fin phi) ! i ! i = Fin 1"
    using trade_cost_entry [OF len(1,3), of "Fin phi"] by simp
  show ?thesis
    using e d diag by (simp add: positive_finite_def mult.commute)
qed

theorem C4_trade_costs_elementwise_witness:
  "calculate_trade_costs [[Fin 0, Fin 10], [Fin 10, Fin 0]] (Fin (1 / 100)) ! 0 ! 1
     = fl_exp (fl_clip (fl_mul (Fin (1 / 100)) (Fin 10)) (- 700) 700)
   \<and> calculate_trade_costs [[Fin 0, Fin 10], [Fin 10, Fin 0]] (Fin (1 / 100)) ! 0 ! 0 = Fin 1
   \<and> positive_finite (calculate_trade_costs [[Fin 0, Fin 10], [Fin 10, Fin 0]] (Fin (1 / 100)) ! 0 ! 1)"
proof -
  let ?D = "[[Fin 0, Fin 10], [Fin 10, Fin 0]]"
  have sq: "square 2 ?D" by (simp add: square_def)
  have nn: "\<forall>i<2. \<forall>j<2. nonneg_finite (?D ! i ! j)"
    by (simp add: nonneg_finite_def less_Suc_eq numeral_2_eq_2)
  have dg: "\<forall>i<2. ?D ! i ! i = Fin 0"
    by (simp add: less_Suc_eq numeral_2_eq_2)
  show ?thesis
    using C4_trade_costs_elementwise [OF sq nn dg, of 0 1 "1 / 100"]
    by (simp add: positive_finite_def)
qed




section \<open>Properties of the repair\<close>






section \<open>Broadcasting and exceptions\<close>

lemma and_then_Inr [simp]: "and_then (Inr x) k = k x"
  by (simp add: and_then_def)

lemma and_then_Inl [simp]: "and_then (Inl e) k = Inl e"
  by (simp add: and_then_def)

lemma broadcast1_same: "length xs = length ys \<Longrightarrow> broadcast1 f xs ys = Inr (map2 f xs ys)"
  by (simp add: broadcast1_def)

lemma broadcast1_mismatch:
  "length xs \<noteq> length ys \<Longrightarrow> length xs \<noteq> 1 \<Longrightarrow> length ys \<noteq> 1 \<Longrightarrow> broadcast1 f xs ys = Inl ValueError"
  by (simp add: broadcast1_def)

lemma broadcast1_single_right: "broadcast1 f xs [y] = Inr (map (\<lambda>x. f x y) xs)"
proof (cases "length xs = 1")
  case True
  then obtain x where "xs = [x]" by (cases xs) auto
  then show ?thesis by (simp add: broadcast1_def)
next
  case False
  then show ?thesis by (simp add: broadcast1_def)
qed

lemma broadcast1_single_left: "broadcast1 f [x] ys = Inr (map (f x) ys)"
proof (cases "length ys = 1")
  case True
  then obtain y where "ys = [y]" by (cases ys) auto
  then show ?thesis by (simp add: broadcast1_def)
next
  case False
  then have "1 \<noteq> length ys" by simp
  then show ?thesis by (simp add: broadcast1_def)
qed

lemma sequence_Inr: "sequence (map Inr xs) = Inr xs"
  by (induction xs) simp_all

lemma length_div_by_mean [simp]: "length (div_by_mean xs) = length xs"
  by (simp add: div_by_mean_def)

lemma length_ones [simp]: "length (ones n) = n"
  by (simp add: ones_def)

lemma length_column [simp]: "length (column v) = length v"
  by (simp add: column_def)

lemma length_nan_to_num [simp]: "length (nan_to_num xs x) = length xs"
  by (simp add: nan_to_num_def)

lemma length_preprocess:
  "length (fst (preprocess L0 w0)) = length L0"
  "length (fst (snd (preprocess L0 w0))) = length w0"
  by (simp_all add: preprocess_def repair_def Let_def)

lemma fl_mul_one_right [simp]: "fl_mul x (Fin 1) = x"
  by (cases x) (simp_all add: signed_inf_def)

lemma fl_mul_one_left [simp]: "fl_mul (Fin 1) x = x"
  by (cases x) (simp_all add: signed_inf_def)

lemma map2_mul_ones: "length w = N \<Longrightarrow> map2 fl_mul w (ones N) = w"
  unfolding ones_def
  by (rule nth_equalityI) simp_all

lemma map_mul_one [simp]: "map (fl_mul (Fin 1)) p = p"
  by (induction p) simp_all

lemma sequence_replicate: "sequence (replicate n (Inr x)) = Inr (replicate n x)"
  by (induction n) simp_all

lemma broadcast2_ones_row:
  "broadcast2 fl_mul (column (ones N)) [p] = Inr (replicate N p)"
proof -
  have "map (\<lambda>x. broadcast1 fl_mul x p) (column (ones N)) = replicate N (Inr p)"
    by (simp add: column_def ones_def broadcast1_single_left)
  then show ?thesis
    by (simp add: broadcast2_def broadcast1_single_right sequence_replicate)
qed

text \<open>With a matrix of \<open>M\<close> rows and a vector of \<open>N\<close> entries, \<open>M \<noteq> N\<close>, both at least 2,
  line 99 raises.\<close>

lemma update_u_shape_error:
  assumes "length T = M" "M \<noteq> N" "2 \<le> M" "2 \<le> N" "length w = N" "length A = N"
  shows "update_u T w A N = Inl ValueError"
proof -
  have "broadcast1 (broadcast1 fl_mul) (map (map (\<lambda>t. np_clip (fl_powi t (1 - sigma)))) T)
          (column (map (\<lambda>x. np_clip (fl_powi x (sigma - 1))) w)) = Inl ValueError"
    using assms by (intro broadcast1_mismatch) simp_all
  then have "broadcast2 fl_mul (map (map (\<lambda>t. np_clip (fl_powi t (1 - sigma)))) T)
          (column (map (\<lambda>x. np_clip (fl_powi x (sigma - 1))) w)) = Inl ValueError"
    by (simp add: broadcast2_def)
  then show ?thesis
    using assms
    by (simp add: update_u_def Let_def broadcast1_same broadcast2_ones_row map2_mul_ones)
qed

lemma loop_exception:
  assumes "try_block T L w N st = Inl e" 
  shows "loop T L w N st = st"
  using assms by (simp add: loop.simps)


lemma try_block_shape_error:
  assumes "length T = M" "M \<noteq> N" "2 \<le> M" "2 \<le> N" "length w = N" "length (st_A st) = N"
  shows "try_block T L w N st = Inl ValueError"
  using update_u_shape_error [OF assms] by (simp add: try_block_def)

lemma use_best_initial: "use_best (initial_state N) = (ones N, ones N, Fin 1)"
  by (simp add: use_best_def initial_state_def)

lemma invert_year_first_raises:
  assumes "try_block T (fst (preprocess L0 w0)) (fst (snd (preprocess L0 w0))) N (initial_state N) = Inl e"
    and "length L0 = N" "length w0 = N" "0 < N"
  shows "invert_year T N L0 w0
           = Inr \<lparr>res_A = ones N, res_u = ones N, iterations = 0, final_diff = Fin 1,
                  warned = snd (snd (preprocess L0 w0))\<rparr>"
proof -
  obtain L w wn where p: "preprocess L0 w0 = (L, w, wn)"
    by (cases "preprocess L0 w0") auto
  have len: "length L = N" "length w = N"
    using length_preprocess [of L0 w0] p assms(2,3) by simp_all
  have ne: "L \<noteq> []" "w \<noteq> []" "ones N \<noteq> []"
    using len assms(4) by (auto simp: ones_def)
  have "loop T L w N (initial_state N) = initial_state N"
    using assms(1) p by (simp add: loop_exception)
  then show ?thesis
    using p ne by (simp add: invert_year_def use_best_initial) (simp add: initial_state_def)
qed

text \<open>
  Claim C10. When the first iteration of a year raises (so no best iterate is recorded, and
  the \<^verbatim>\<open>break\<close> lets no other iteration run), the columns of that year are the all-ones
  vectors, its record has \<open>iterations = 0\<close> and \<open>final_diff = 1\<close>, and the remaining
  years are processed.
\<close>

theorem C10_exception_keeps_initial_guess:
  assumes "try_block T (fst (preprocess L0 w0)) (fst (snd (preprocess L0 w0))) N (initial_state N) = Inl e"
    and "length L0 = N" "length w0 = N" "0 < N"
  shows "invert_model T N ((year, L0, w0) # years)
           = and_then (invert_model T N years) (\<lambda>rs. Inr ((year,
                \<lparr>res_A = ones N, res_u = ones N, iterations = 0, final_diff = Fin 1,
                 warned = snd (snd (preprocess L0 w0))\<rparr>) # rs))"
  using invert_year_first_raises [OF assms]
  by (simp add: and_then_def)

theorem C10_exception_keeps_initial_guess_witness:
  "invert_model [[Fin 2, Fin 2, Fin 2], [Fin 2, Fin 2, Fin 2], [Fin 2, Fin 2, Fin 2]] 2
     [(1975, [Fin 1, Fin 3], [Fin 4, Fin 4]), (1980, [Fin 2, Fin 2], [Fin 3, Fin 5])]
   = Inr [(1975, \<lparr>res_A = [Fin 1, Fin 1], res_u = [Fin 1, Fin 1], iterations = 0,
                   final_diff = Fin 1, warned = False\<rparr>),
          (1980, \<lparr>res_A = [Fin 1, Fin 1], res_u = [Fin 1, Fin 1], iterations = 0,
                   final_diff = Fin 1, warned = False\<rparr>)]"
proof -
  let ?T = "[[Fin 2, Fin 2, Fin 2], [Fin 2, Fin 2, Fin 2], [Fin 2, Fin 2, Fin 2]]"
  have r: "try_block ?T (fst (preprocess L0 w0)) (fst (snd (preprocess L0 w0))) 2 (initial_state 2)
             = Inl ValueError" if "length L0 = 2" "length w0 = 2" for L0 w0
    using that by (intro try_block_shape_error [of _ 3])
      (simp_all add: length_preprocess initial_state_def)
  have w: "snd (snd (preprocess [Fin 1, Fin 3] [Fin 4, Fin 4])) = False"
          "snd (snd (preprocess [Fin 2, Fin 2] [Fin 3, Fin 5])) = False"
    by (simp_all add: preprocess_def repair_def)
  show ?thesis
    using C10_exception_keeps_initial_guess [OF r, of "[Fin 1, Fin 3]" "[Fin 4, Fin 4]" 1975
            "[(1980, [Fin 2, Fin 2], [Fin 3, Fin 5])]"]
          C10_exception_keeps_initial_guess [OF r, of "[Fin 2, Fin 2]" "[Fin 3, Fin 5]" 1980 "[]"]
    by (simp add: w ones_def numeral_2_eq_2)
qed

text \<open>
  Claim C2, amended. The inversion checks no shape. With a trade-cost matrix of size
  \<open>M \<times> M\<close> and \<open>N\<close> locations, \<open>M \<noteq> N\<close> and both at least 2, the product of line 99
  raises inside the first iteration; the exception is caught there, and the year ends
  without an error, with the all-ones vectors, \<open>iterations = 0\<close> and \<open>final_diff = 1\<close>.
\<close>

theorem C2_shape_mismatch_is_caught:
  assumes "square M T" "M \<noteq> N" "2 \<le> M" "2 \<le> N" "length L0 = N" "length w0 = N"
  shows "invert_year T N L0 w0
           = Inr \<lparr>res_A = ones N, res_u = ones N, iterations = 0, final_diff = Fin 1,
                  warned = snd (snd (preprocess L0 w0))\<rparr>"
proof -
  have "try_block T (fst (preprocess L0 w0)) (fst (snd (preprocess L0 w0))) N (initial_state N)
          = Inl ValueError"
    using assms by (intro try_block_shape_error [of T M])
      (simp_all add: square_def length_preprocess initial_state_def)
  then show ?thesis
    using assms by (intro invert_year_first_raises) simp_all
qed

theorem C2_shape_mismatch_is_caught_witness:
  "invert_year [[Fin 1, Fin 1, Fin 1], [Fin 1, Fin 1, Fin 1], [Fin 1, Fin 1, Fin 1]] 2 [Fin 1, Fin 3] [Fin 5, Fin 5]
           = Inr \<lparr>res_A = [Fin 1, Fin 1], res_u = [Fin 1, Fin 1], iterations = 0, final_diff = Fin 1,
                  warned = False\<rparr>"
  using C2_shape_mismatch_is_caught [of 3 "[[Fin 1, Fin 1, Fin 1], [Fin 1, Fin 1, Fin 1], [Fin 1, Fin 1, Fin 1]]" 2 "[Fin 1, Fin 3]" "[Fin 5, Fin 5]"]
  by (simp add: square_def preprocess_def repair_def ones_def numeral_2_eq_2)

text \<open>
  Claim C2, as stated, has the call fail with an error before any iteration. With a
  \<open>3 \<times> 3\<close> matrix and two locations it returns a result.
\<close>

theorem C2_no_shape_error_counterexample:
  "\<not> isl (invert_year [[Fin 1, Fin 1, Fin 1], [Fin 1, Fin 1, Fin 1], [Fin 1, Fin 1, Fin 1]] 2
              [Fin 1, Fin 3] [Fin 5, Fin 5])"
proof -
  have "try_block [[Fin 1, Fin 1, Fin 1], [Fin 1, Fin 1, Fin 1], [Fin 1, Fin 1, Fin 1]]
          (fst (preprocess [Fin 1, Fin 3] [Fin 5, Fin 5])) (fst (snd (preprocess [Fin 1, Fin 3] [Fin 5, Fin 5])))
          2 (initial_state 2) = Inl ValueError"
    by (intro try_block_shape_error [of _ 3]) (simp_all add: length_preprocess initial_state_def)
  from invert_year_first_raises [OF this] show ?thesis by simp
qed

section \<open>The update formulas\<close>

lemma broadcast2_column:
  assumes "length X = length v"
  shows "broadcast2 f X (column v) = Inr (map2 (\<lambda>row y. map (\<lambda>x. f x y) row) X v)"
proof -
  have "map2 (broadcast1 f) X (column v) = map Inr (map2 (\<lambda>row y. map (\<lambda>x. f x y) row) X v)"
    using assms by (intro nth_equalityI) (simp_all add: column_def broadcast1_single_right)
  moreover have "length X = length (column v)"
    using assms by simp
  ultimately show ?thesis
    by (simp only: broadcast2_def broadcast1_same sequence_Inr sum.case)
qed

lemma broadcast2_same:
  assumes "length X = length Y" "\<forall>i<length X. length (X ! i) = length (Y ! i)"
  shows "broadcast2 f X Y = Inr (map2 (map2 f) X Y)"
proof -
  have "map2 (broadcast1 f) X Y = map Inr (map2 (map2 f) X Y)"
    using assms by (intro nth_equalityI) (simp_all add: broadcast1_same)
  then show ?thesis
    by (simp only: broadcast2_def broadcast1_same [OF assms(1)] sequence_Inr sum.case)
qed

lemma combined_row:
  assumes "square N T" "length w = N" "length A = N" "i < N"
  shows "map np_clip (map2 fl_mul
            (map (\<lambda>x. fl_mul x (np_clip (fl_powi (w ! i) (sigma - 1))))
                 (map (\<lambda>t. np_clip (fl_powi t (1 - sigma))) (T ! i)))
            (map np_clip (map (\<lambda>x. fl_powi x (sigma - 1)) (map2 fl_div A w))))
         = map (spec_combined T w A i) [0..<N]"
proof -
  have "length (T ! i) = N"
    using assms(1,4) by (simp add: square_def list_all_length)
  then show ?thesis
    using assms by (intro nth_equalityI) (simp_all add: spec_combined_def)
qed

lemma update_u_wellshaped:
  assumes "square N T" "length w = N" "length A = N"
  shows "update_u T w A N = Inr (spec_u_new T w A N)"
proof -
  let ?term1 = "map (map (\<lambda>t. np_clip (fl_powi t (1 - sigma)))) T"
  let ?term2 = "map (\<lambda>x. np_clip (fl_powi x (sigma - 1))) w"
  let ?r3 = "map np_clip (map (\<lambda>x. fl_powi x (sigma - 1)) (map2 fl_div A w))"
  let ?p12 = "map2 (\<lambda>row y. map (\<lambda>x. fl_mul x y) row) ?term1 ?term2"
  let ?term3 = "map (map np_clip) (replicate N (map (\<lambda>x. fl_powi x (sigma - 1)) (map2 fl_div A w)))"
  have lenT: "length T = N" and rows: "\<And>i. i < N \<Longrightarrow> length (T ! i) = N"
    using assms(1) by (simp_all add: square_def list_all_length)
  have b12: "broadcast2 fl_mul ?term1 (column ?term2) = Inr ?p12"
    using lenT assms(2) by (intro broadcast2_column) simp
  have b123: "broadcast2 fl_mul ?p12 ?term3 = Inr (map2 (map2 fl_mul) ?p12 ?term3)"
    using lenT assms(2,3) rows by (intro broadcast2_same) simp_all
  have comb: "map (map np_clip) (map2 (map2 fl_mul) ?p12 ?term3)
                = map (\<lambda>i. map (spec_combined T w A i) [0..<N]) [0..<N]"
  proof (rule nth_equalityI)
    show "length (map (map np_clip) (map2 (map2 fl_mul) ?p12 ?term3))
            = length (map (\<lambda>i. map (spec_combined T w A i) [0..<N]) [0..<N])"
      using lenT assms(2) by simp
  next
    fix i assume "i < length (map (map np_clip) (map2 (map2 fl_mul) ?p12 ?term3))"
    then have i: "i < N" using lenT assms(2) by simp
    then show "map (map np_clip) (map2 (map2 fl_mul) ?p12 ?term3) ! i
                 = map (\<lambda>i. map (spec_combined T w A i) [0..<N]) [0..<N] ! i"
      using combined_row [OF assms i] lenT assms(2) by simp
  qed
  have e1: "broadcast1 fl_mul w (ones N) = Inr w"
    using assms(2) by (simp add: broadcast1_same map2_mul_ones)
  have e2: "broadcast1 fl_div A w = Inr (map2 fl_div A w)"
    using assms(2,3) by (simp add: broadcast1_same)
  have e3: "broadcast2 fl_mul (column (ones N)) [map (\<lambda>x. fl_powi x (sigma - 1)) (map2 fl_div A w)]
              = Inr (replicate N (map (\<lambda>x. fl_powi x (sigma - 1)) (map2 fl_div A w)))"
    by (rule broadcast2_ones_row)
  have "update_u T w A N
          = Inr (div_by_mean (map (\<lambda>row. np_clip (fl_powr (fl_mean row) (1 / real_of_int (1 - sigma))))
                   (map (\<lambda>i. map (spec_combined T w A i) [0..<N]) [0..<N])))"
    by (simp only: update_u_def Let_def e1 e2 e3 b12 b123 and_then_Inr comb)
  also have "\<dots> = Inr (spec_u_new T w A N)"
    by (simp only: spec_u_new_def spec_u_clipped_def [abs_def] map_map comp_def)
  finally show ?thesis .
qed

lemma update_A_wellshaped:
  assumes "length L = N" "length w = N" "length u = N"
  shows "update_A L w u = Inr (spec_A_new L w u N)"
proof -
  have "map (\<lambda>x. np_clip (fl_powr x (1 / real_of_int (sigma - 1))))
          (map2 fl_mul (map2 fl_mul L (map (\<lambda>x. fl_powi x (2 * sigma - 1)) w))
                       (map (\<lambda>x. fl_powi x (sigma - 1)) u))
        = map (spec_A_clipped L w u) [0..<N]"
    using assms by (intro nth_equalityI) (simp_all add: spec_A_clipped_def)
  then show ?thesis
    using assms by (simp add: update_A_def broadcast1_same spec_A_new_def)
qed

lemma length_spec_new [simp]:
  "length (spec_u_new T w A N) = N" "length (spec_A_new L w u N) = N"
  by (simp_all add: spec_u_new_def spec_A_new_def)

lemma blend_same:
  "length x_new = length x \<Longrightarrow>
   blend alpha x_new x = Inr (map2 fl_add (map (fl_mul (Fin alpha)) x_new) (map (fl_mul (Fin (1 - alpha))) x))"
  by (simp add: blend_def broadcast1_same)

lemma try_block_result:
  assumes "update_u T w (st_A st) N = Inr u_new" "update_A L w (st_u st) = Inr A_new"
    and "length A_new = length (st_A st)" "length u_new = length (st_u st)"
  shows "try_block T L w N st = Inr (A_new, u_new,
           (if fl_less (fl_add (norm2 (map2 fl_sub (st_A st) A_new)) (norm2 (map2 fl_sub (st_u st) u_new)))
                       (best_diff st)
            then st\<lparr>st_diff := fl_add (norm2 (map2 fl_sub (st_A st) A_new)) (norm2 (map2 fl_sub (st_u st) u_new)),
                    best_diff := fl_add (norm2 (map2 fl_sub (st_A st) A_new)) (norm2 (map2 fl_sub (st_u st) u_new)),
                    best_A := Some A_new, best_u := Some u_new, no_improvement_count := 0\<rparr>
            else st\<lparr>st_diff := fl_add (norm2 (map2 fl_sub (st_A st) A_new)) (norm2 (map2 fl_sub (st_u st) u_new)),
                    no_improvement_count := no_improvement_count st + 1\<rparr>)
           \<lparr>st_A := map2 fl_add (map (fl_mul (Fin (alpha_update (iter_count st)))) A_new)
                                 (map (fl_mul (Fin (1 - alpha_update (iter_count st)))) (st_A st)),
             st_u := map2 fl_add (map (fl_mul (Fin (alpha_update (iter_count st)))) u_new)
                                 (map (fl_mul (Fin (1 - alpha_update (iter_count st)))) (st_u st))\<rparr>)"
  using assms
  by (simp add: try_block_def Let_def broadcast1_same blend_same)


text \<open>
  Claim C1. In an iteration with current estimates \<open>A\<close> and \<open>u\<close> (vectors of length
  \<open>N\<close>, with \<open>L\<close> and \<open>w\<close> of length \<open>N\<close> and \<open>T\<close> of size \<open>N \<times> N\<close>), the
  array expressions of the code compute, entry by entry, the formulas of the specification:
  \<open>combined[i][j]\<close> is the clipped product of the three clipped factors, \<open>u_new\<close> is
  the clipped power of the row means divided by its mean, and \<open>A_new\<close> is the clipped
  power divided by its mean.
\<close>

theorem C1_update_formulas:
  assumes "square N T" "length L = N" "length w = N"
    and "length (st_A st) = N" "length (st_u st) = N"
  shows "update_u T w (st_A st) N = Inr (spec_u_new T w (st_A st) N)
       \<and> update_A L w (st_u st) = Inr (spec_A_new L w (st_u st) N)
       \<and> (\<exists>st'. try_block T L w N st
                  = Inr (spec_A_new L w (st_u st) N, spec_u_new T w (st_A st) N, st'))"
proof -
  have u: "update_u T w (st_A st) N = Inr (spec_u_new T w (st_A st) N)"
    using assms(1,3,4) by (rule update_u_wellshaped)
  have a: "update_A L w (st_u st) = Inr (spec_A_new L w (st_u st) N)"
    using assms(2,3,5) by (rule update_A_wellshaped)
  have "\<exists>st'. try_block T L w N st
                  = Inr (spec_A_new L w (st_u st) N, spec_u_new T w (st_A st) N, st')"
    using try_block_result [OF u a] assms(4,5) by simp
  with u a show ?thesis by blast
qed

theorem C1_update_formulas_witness:
  "update_u [[Fin 1, Fin 2], [Fin 2, Fin 1]] [Fin 1, Fin 1] (st_A (initial_state 2)) 2
       = Inr (spec_u_new [[Fin 1, Fin 2], [Fin 2, Fin 1]] [Fin 1, Fin 1] (st_A (initial_state 2)) 2)
   \<and> update_A [Fin 1, Fin 1] [Fin 1, Fin 1] (st_u (initial_state 2))
       = Inr (spec_A_new [Fin 1, Fin 1] [Fin 1, Fin 1] (st_u (initial_state 2)) 2)
   \<and> (\<exists>st'. try_block [[Fin 1, Fin 2], [Fin 2, Fin 1]] [Fin 1, Fin 1] [Fin 1, Fin 1] 2 (initial_state 2)
         = Inr (spec_A_new [Fin 1, Fin 1] [Fin 1, Fin 1] (st_u (initial_state 2)) 2,
                spec_u_new [[Fin 1, Fin 2], [Fin 2, Fin 1]] [Fin 1, Fin 1] (st_A (initial_state 2)) 2, st'))"
  using C1_update_formulas [of 2 "[[Fin 1, Fin 2], [Fin 2, Fin 1]]" "[Fin 1, Fin 1]" "[Fin 1, Fin 1]" "initial_state 2"]
  by (simp add: square_def initial_state_def)

section \<open>The loop\<close>
















section \<open>The best iterate\<close>

lemma fl_less_irrefl [simp]: "\<not> fl_less x x"
  by (cases x) simp_all



















section \<open>Vectors of finite values\<close>



lemma clipped_iff: "clipped x = (\<exists>a. x = Fin a \<and> 1 / 10 ^ 10 \<le> a \<and> a \<le> 10 ^ 10)"
  by (cases x) (simp_all add: clipped_def)













section \<open>Clipped values\<close>




lemma fl_mul_clipped: "clipped x \<Longrightarrow> clipped y \<Longrightarrow> \<not> is_nan (fl_mul x y)"
  by (auto simp: clipped_iff)






section \<open>The updates on finite data\<close>









section \<open>The residual and the blend on finite data\<close>






section \<open>The iteration on finite data\<close>


section \<open>Repair and normalisation of usable data\<close>







section \<open>The result of a year on usable data\<close>












end
